theory Spec2Isabelle
  imports Main "HOL-Library.Option_ord"
begin

section \<open>The raffle store: tables of app.py\<close>

text \<open>
  The two SQLAlchemy models of \<^verbatim>\<open>app.py\<close> are records, one per row; a table is the
  list of its rows in insertion order. Python integers are \<open>int\<close>; the \<open>String\<close> columns
  are \<open>string\<close>; a nullable column is an \<open>option\<close>. A \<open>DateTime\<close> is a point of the UTC
  time line, counted in microseconds (the resolution of Python's \<open>datetime\<close>), so that
  the comparison of two timestamps is the comparison of two integers.
\<close>

type_synonym datetime = int

record participante =
  p_id :: int
  nombre :: string
  email :: string
  telefono :: string

record boleto =
  b_id :: int
  numero_boleto :: int
  estado :: string
  fecha_apartado :: "datetime option"
  participante_id :: "int option"

record db =
  participantes :: "participante list"
  boletos :: "boleto list"

text \<open>
  The configuration read from the environment when the module is loaded
  (\<^verbatim>\<open>WHATSAPP_ADMIN\<close>, \<^verbatim>\<open>ADMIN_SECRET_CODE\<close>), passed explicitly.
\<close>

record config =
  WHATSAPP_ADMIN :: string
  ADMIN_SECRET_CODE :: string

text \<open>
  The request of a route: its method (the route of \<open>apartar\<close> is declared for GET and
  POST, and Flask sends it the HEAD requests too) and the three form fields \<open>apartar\<close>
  reads. \<^verbatim>\<open>request.form.get\<close> gives \<open>None\<close> for a
  field the submitted form does not carry. The clock (\<^verbatim>\<open>datetime.utcnow()\<close>) is an
  explicit argument of every function that reads it.
\<close>

datatype metodo = GET | HEAD | POST

record formulario =
  form_nombre :: "string option"
  form_email :: "string option"
  form_telefono :: "string option"

record request =
  req_method :: metodo
  req_form :: formulario

text \<open>
  The store is the one \<^verbatim>\<open>app.py\<close> falls back to when \<^verbatim>\<open>DATABASE_URL\<close> is not set, SQLite.
  Two of its refusals can be reached through a route, and no route catches them:
  \<^item> an integer outside the signed 64-bit range cannot be bound as the parameter of a
    query (\<^verbatim>\<open>OverflowError\<close>);
  \<^item> a row with NULL in a column declared \<open>nullable=False\<close>, or with a value already
    present in a \<open>unique\<close> column, is refused when it is flushed (\<^verbatim>\<open>IntegrityError\<close>).
  The request then ends with the status 500 and the session is discarded with nothing
  committed. SQLite does not enforce the declared lengths of the \<open>String\<close> columns.
\<close>

datatype excepcion = OverflowError | IntegrityError

text \<open>
  What a view function gives back: \<^verbatim>\<open>abort(404)\<close> (also raised by \<^verbatim>\<open>first_or_404\<close> and
  \<^verbatim>\<open>get_or_404\<close>), \<^verbatim>\<open>abort(403)\<close> and the 500 of an exception nobody catches are errors;
  a rendered template or a redirect is a response. A redirect that follows a \<^verbatim>\<open>flash\<close>
  carries the category of the flashed message; the WhatsApp redirect carries the values
  its URL is built from (the ticket number, and \<open>nombre\<close> and \<open>email\<close> as the form gave
  them).
\<close>

datatype http_error = NotFound | Forbidden | InternalServerError excepcion

datatype respuesta =
    Render_apartar boleto
  | Render_admin "boleto list" string
  | Redirect_index string
  | Redirect_whatsapp string int "string option" "string option"
  | Redirect_admin string int string

type_synonym resultado = "(http_error + respuesta) \<times> db"

subsection \<open>The store's own operations\<close>

text \<open>
  An autoincremented integer primary key: the store gives a new row the largest key in
  use plus one, and 1 in an empty table.
\<close>

definition siguiente_id :: "int list \<Rightarrow> int" where
  "siguiente_id ids = fold max ids 0 + 1"

text \<open>The range of an integer SQLite can take as a parameter.\<close>

definition sqlite_integer :: "int \<Rightarrow> bool" where
  "sqlite_integer n \<longleftrightarrow> - (2 ^ 63) \<le> n \<and> n < 2 ^ 63"

text \<open>
  \<^verbatim>\<open>db.session.add(Participante(...))\<close> followed by \<^verbatim>\<open>flush\<close>: the three columns are
  \<open>nullable=False\<close> and \<open>email\<close> is \<open>unique\<close>, so the flush raises when a value is \<open>None\<close>
  or the email is already stored; otherwise the new row gets its key and is returned
  with it.
\<close>

definition agregar_participante ::
  "string option \<Rightarrow> string option \<Rightarrow> string option \<Rightarrow> db \<Rightarrow> excepcion + participante \<times> db" where
  "agregar_participante nom em tel d =
     (case nom of
        None \<Rightarrow> Inl IntegrityError
      | Some n \<Rightarrow>
          (case em of
             None \<Rightarrow> Inl IntegrityError
           | Some e \<Rightarrow>
               (case tel of
                  None \<Rightarrow> Inl IntegrityError
                | Some t \<Rightarrow>
                    if e \<in> email ` set (participantes d) then Inl IntegrityError
                    else
                      let p = \<lparr>p_id = siguiente_id (map p_id (participantes d)),
                                nombre = n, email = e, telefono = t\<rparr>
                      in Inr (p, d\<lparr>participantes := participantes d @ [p]\<rparr>))))"

text \<open>
  \<^verbatim>\<open>db.session.add(Boleto(numero_boleto=i, estado='disponible'))\<close>: the columns not given
  are NULL.
\<close>

definition agregar_boleto :: "int \<Rightarrow> db \<Rightarrow> db" where
  "agregar_boleto i d =
     d\<lparr>boletos := boletos d @
        [\<lparr>b_id = siguiente_id (map b_id (boletos d)), numero_boleto = i,
          estado = ''disponible'', fecha_apartado = None, participante_id = None\<rparr>]\<rparr>"

text \<open>
  Writing a changed \<open>Boleto\<close> object back at \<^verbatim>\<open>commit\<close>: the session updates the row
  with the object's primary key.
\<close>

definition guardar_boleto :: "boleto \<Rightarrow> db \<Rightarrow> db" where
  "guardar_boleto b d =
     d\<lparr>boletos := map (\<lambda>x. if b_id x = b_id b then b else x) (boletos d)\<rparr>"

text \<open>
  The constraints the models declare: the primary keys, and the \<open>unique\<close> columns
  \<open>numero_boleto\<close> and \<open>email\<close>.
\<close>

definition restricciones :: "db \<Rightarrow> bool" where
  "restricciones d \<longleftrightarrow>
     distinct (map b_id (boletos d)) \<and> distinct (map numero_boleto (boletos d)) \<and>
     distinct (map p_id (participantes d)) \<and> distinct (map email (participantes d))"

text \<open>
  The three lookups of the routes: \<^verbatim>\<open>filter_by(numero_boleto=...).first()\<close>,
  \<^verbatim>\<open>filter_by(email=...).first()\<close> and \<^verbatim>\<open>query.get(...)\<close> by primary key. Each gives the
  first matching row, or nothing. The two lookups by an integer of the URL raise when the
  integer cannot be bound. A lookup by the email \<open>None\<close> is the test \<^verbatim>\<open>email IS NULL\<close>, which
  no row passes.
\<close>

definition boleto_por_numero :: "int \<Rightarrow> db \<Rightarrow> excepcion + boleto option" where
  "boleto_por_numero num d =
     (if sqlite_integer num then Inr (find (\<lambda>b. numero_boleto b = num) (boletos d))
      else Inl OverflowError)"

definition participante_por_email :: "string option \<Rightarrow> db \<Rightarrow> participante option" where
  "participante_por_email em d = find (\<lambda>p. Some (email p) = em) (participantes d)"

definition boleto_por_id :: "int \<Rightarrow> db \<Rightarrow> excepcion + boleto option" where
  "boleto_por_id pk d =
     (if sqlite_integer pk then Inr (find (\<lambda>b. b_id b = pk) (boletos d))
      else Inl OverflowError)"

section \<open>The routes of app.py\<close>

text \<open>
  \<open>apartar\<close>: the ticket is looked up by its number (404 when there is none). A POST on
  a ticket that is not \<open>disponible\<close> flashes and redirects; otherwise the participant is
  looked up by email, created when there is none, and the ticket becomes \<open>apartado\<close>. Any
  other method shows the form or redirects, and changes nothing. An exception of the lookup or of the flush ends the request before
  anything is committed.
\<close>

definition apartar :: "config \<Rightarrow> datetime \<Rightarrow> request \<Rightarrow> int \<Rightarrow> db \<Rightarrow> resultado" where
  "apartar cfg now req num d =
     (case boleto_por_numero num d of
        Inl e \<Rightarrow> (Inl (InternalServerError e), d)
      | Inr None \<Rightarrow> (Inl NotFound, d)
      | Inr (Some boleto) \<Rightarrow>
          if req_method req = POST then
            if estado boleto \<noteq> ''disponible'' then (Inr (Redirect_index ''danger''), d)
            else
              let nom = form_nombre (req_form req);
                  em = form_email (req_form req);
                  tel = form_telefono (req_form req)
              in (case (case participante_por_email em d of
                          None \<Rightarrow> agregar_participante nom em tel d
                        | Some p \<Rightarrow> Inr (p, d)) of
                    Inl e \<Rightarrow> (Inl (InternalServerError e), d)
                  | Inr (participante, d1) \<Rightarrow>
                      let boleto1 = boleto\<lparr>estado := ''apartado'',
                                           participante_id := Some (p_id participante),
                                           fecha_apartado := Some now\<rparr>
                      in (Inr (Redirect_whatsapp (WHATSAPP_ADMIN cfg) (numero_boleto boleto1)
                                 nom em),
                          guardar_boleto boleto1 d1))
          else if estado boleto \<noteq> ''disponible'' then (Inr (Redirect_index ''warning''), d)
          else (Inr (Render_apartar boleto), d))"

text \<open>
  The block run when the module is loaded: when the table of tickets is empty, one
  ticket for each number of \<^verbatim>\<open>range(0, 100)\<close>.
\<close>

fun crear_boletos :: "int list \<Rightarrow> db \<Rightarrow> db" where
  "crear_boletos [] d = d"
| "crear_boletos (i # rest) d = crear_boletos rest (agregar_boleto i d)"

definition bootstrap :: "db \<Rightarrow> db" where
  "bootstrap d = (if length (boletos d) = 0 then crear_boletos [0..99] d else d)"

text \<open>
  \<open>admin\<close>: 403 unless the code in the URL is the configured one; otherwise the tickets
  \<open>apartado\<close>, ordered by their timestamp (a row with no timestamp first, as SQLite
  orders NULL; rows with equal timestamps in table order).
\<close>

definition admin :: "config \<Rightarrow> string \<Rightarrow> db \<Rightarrow> resultado" where
  "admin cfg codigo_secreto d =
     (if codigo_secreto \<noteq> ADMIN_SECRET_CODE cfg then (Inl Forbidden, d)
      else
        let boletos_apartados =
              sort_key fecha_apartado (filter (\<lambda>b. estado b = ''apartado'') (boletos d))
        in (Inr (Render_admin boletos_apartados codigo_secreto), d))"

text \<open>
  \<open>confirmar\<close>: 403 unless the code is the configured one, 404 when no ticket has the
  primary key (500 when the key cannot be looked up); otherwise the ticket's \<open>estado\<close>
  becomes \<open>vendido\<close>, whatever it was.
\<close>

definition confirmar :: "config \<Rightarrow> int \<Rightarrow> string \<Rightarrow> db \<Rightarrow> resultado" where
  "confirmar cfg boleto_pk codigo_secreto d =
     (if codigo_secreto \<noteq> ADMIN_SECRET_CODE cfg then (Inl Forbidden, d)
      else
        (case boleto_por_id boleto_pk d of
           Inl e \<Rightarrow> (Inl (InternalServerError e), d)
         | Inr None \<Rightarrow> (Inl NotFound, d)
         | Inr (Some boleto) \<Rightarrow>
             let boleto1 = boleto\<lparr>estado := ''vendido''\<rparr>
             in (Inr (Redirect_admin ''success'' (numero_boleto boleto1) codigo_secreto),
                 guardar_boleto boleto1 d)))"

section \<open>The sweeper of liberar_boletos.py\<close>

definition TIEMPO_LIMITE_MINUTOS :: int where
  "TIEMPO_LIMITE_MINUTOS = 120"

text \<open>\<^verbatim>\<open>timedelta(minutes=m)\<close>, in microseconds.\<close>

definition timedelta_minutes :: "int \<Rightarrow> int" where
  "timedelta_minutes m = m * 60000000"

text \<open>
  The filter of the query: \<open>estado\<close> is \<open>apartado\<close> and \<open>fecha_apartado\<close> is before the
  limit. In SQL a comparison with NULL is not true, so a row with no timestamp is never
  selected.
\<close>

definition expirado :: "datetime \<Rightarrow> boleto \<Rightarrow> bool" where
  "expirado limite_de_tiempo b \<longleftrightarrow>
     estado b = ''apartado'' \<and>
     (case fecha_apartado b of None \<Rightarrow> False | Some t \<Rightarrow> t < limite_de_tiempo)"

definition liberar :: "boleto \<Rightarrow> boleto" where
  "liberar b = b\<lparr>estado := ''disponible'', participante_id := None, fecha_apartado := None\<rparr>"

text \<open>The loop over the selected tickets; each one is written back by its key.\<close>

fun liberar_todos :: "boleto list \<Rightarrow> db \<Rightarrow> db" where
  "liberar_todos [] d = d"
| "liberar_todos (b # rest) d = liberar_todos rest (guardar_boleto (liberar b) d)"

text \<open>One pass of the sweeper: the new store and the number of tickets it reports.\<close>

definition liberar_boletos_expirados :: "datetime \<Rightarrow> db \<Rightarrow> db \<times> nat" where
  "liberar_boletos_expirados now d =
     (let limite_de_tiempo = now - timedelta_minutes TIEMPO_LIMITE_MINUTOS;
          boletos_a_liberar = filter (expirado limite_de_tiempo) (boletos d);
          cantidad_liberados = length boletos_a_liberar
      in if cantidad_liberados > 0 then (liberar_todos boletos_a_liberar d, cantidad_liberados)
         else (d, cantidad_liberados))"

section \<open>Properties of a ticket\<close>

text \<open>
  The relation between a ticket's \<open>estado\<close> and its two nullable columns, in the three
  forms the development speaks of: \<open>apartado\<close> exactly when timestamp and participant are
  both there; the same in its two directions, with \<open>vendido\<close> allowed to keep both; and
  the participant there exactly when the ticket is \<open>apartado\<close> or \<open>vendido\<close>.
\<close>

definition apartado_iff :: "boleto \<Rightarrow> bool" where
  "apartado_iff b \<longleftrightarrow>
     (estado b = ''apartado'') = (fecha_apartado b \<noteq> None \<and> participante_id b \<noteq> None)"

definition apartado_coherente :: "boleto \<Rightarrow> bool" where
  "apartado_coherente b \<longleftrightarrow>
     (estado b = ''apartado'' \<longrightarrow> fecha_apartado b \<noteq> None \<and> participante_id b \<noteq> None) \<and>
     (fecha_apartado b \<noteq> None \<and> participante_id b \<noteq> None \<longrightarrow>
        estado b = ''apartado'' \<or> estado b = ''vendido'')"

definition propietario_iff :: "boleto \<Rightarrow> bool" where
  "propietario_iff b \<longleftrightarrow>
     (participante_id b \<noteq> None) = (estado b = ''apartado'' \<or> estado b = ''vendido'')"

section \<open>Concrete stores and requests\<close>

text \<open>
  The configuration with the defaults of \<^verbatim>\<open>app.py\<close>, the empty store, the store after the
  start-up block, and reservation forms.
\<close>

definition cfg0 :: config where
  "cfg0 = \<lparr>WHATSAPP_ADMIN = ''5560967913'', ADMIN_SECRET_CODE = ''admin123''\<rparr>"

definition db_vacia :: db where
  "db_vacia = \<lparr>participantes = [], boletos = []\<rparr>"

definition db_inicial :: db where
  "db_inicial = bootstrap db_vacia"

definition post_ana :: request where
  "post_ana = \<lparr>req_method = POST,
     req_form = \<lparr>form_nombre = Some ''Ana'', form_email = Some ''ana@x.com'',
                 form_telefono = Some ''555''\<rparr>\<rparr>"


definition post_luis :: request where
  "post_luis = \<lparr>req_method = POST,
     req_form = \<lparr>form_nombre = Some ''Luis'', form_email = Some ''luis@x.com'',
                 form_telefono = Some ''777''\<rparr>\<rparr>"

text \<open>A form without the field \<open>nombre\<close>, from an email the store has not seen.\<close>

definition post_sin_nombre :: request where
  "post_sin_nombre = \<lparr>req_method = POST,
     req_form = \<lparr>form_nombre = None, form_email = Some ''eva@x.com'',
                 form_telefono = Some ''888''\<rparr>\<rparr>"

definition t0 :: datetime where
  "t0 = 1000000000000000"

text \<open>Ana reserves ticket 42 at \<open>t0\<close>.\<close>

definition db_ana :: db where
  "db_ana = snd (apartar cfg0 t0 post_ana 42 db_inicial)"

text \<open>
  A longer history: Ana reserves 42 and 8 at \<open>t0\<close> and ticket 8 (primary key 9) is
  confirmed; Luis reserves 9 one minute later and 7 two hours after \<open>t0\<close>.
\<close>

definition db_escenario :: db where
  "db_escenario =
     (let d1 = snd (apartar cfg0 t0 post_ana 42 db_inicial);
          d2 = snd (apartar cfg0 t0 post_ana 8 d1);
          d3 = snd (confirmar cfg0 9 ''admin123'' d2);
          d4 = snd (apartar cfg0 (t0 + timedelta_minutes 1) post_luis 9 d3)
      in snd (apartar cfg0 (t0 + timedelta_minutes 120) post_luis 7 d4))"

section \<open>Lookups\<close>

lemma boleto_por_numero_None:
  "boleto_por_numero num d = Inr None \<longleftrightarrow>
     sqlite_integer num \<and> num \<notin> numero_boleto ` set (boletos d)"
  by (auto simp: boleto_por_numero_def find_None_iff)

lemma boleto_por_numero_Some:
  "boleto_por_numero num d = Inr (Some b) \<Longrightarrow> b \<in> set (boletos d) \<and> numero_boleto b = num"
  by (auto simp: boleto_por_numero_def find_Some_iff split: if_splits)

lemma boleto_por_numero_Inl:
  "boleto_por_numero num d = Inl e \<longleftrightarrow> \<not> sqlite_integer num \<and> e = OverflowError"
  by (auto simp: boleto_por_numero_def)

lemma boleto_por_numero_Inr:
  "boleto_por_numero num d = Inr x \<Longrightarrow> sqlite_integer num"
  by (auto simp: boleto_por_numero_def split: if_splits)

lemma boleto_por_id_Some:
  "boleto_por_id pk d = Inr (Some b) \<Longrightarrow> b \<in> set (boletos d) \<and> b_id b = pk"
  by (auto simp: boleto_por_id_def find_Some_iff split: if_splits)

lemma participante_por_email_Some:
  "participante_por_email em d = Some p \<Longrightarrow> p \<in> set (participantes d) \<and> em = Some (email p)"
  by (auto simp: participante_por_email_def find_Some_iff)

lemma participante_por_email_None:
  "participante_por_email (Some e) d = None \<longleftrightarrow> e \<notin> email ` set (participantes d)"
  by (auto simp: participante_por_email_def find_None_iff)

lemma participante_por_email_NULL [simp]: "participante_por_email None d = None"
  by (simp add: participante_por_email_def find_None_iff)

subsection \<open>Keys and writes\<close>

lemma siguiente_id_mayor: "x \<in> set ids \<Longrightarrow> x < siguiente_id ids"
proof -
  assume "x \<in> set ids"
  then have "x \<le> Max (set (0 # ids))"
    by (intro Max_ge) auto
  then show ?thesis
    by (simp only: siguiente_id_def Max.set_eq_fold)
qed

lemma siguiente_id_nuevo: "siguiente_id ids \<notin> set ids"
  using siguiente_id_mayor [of "siguiente_id ids" ids] by auto

lemma participantes_guardar_boleto [simp]:
  "participantes (guardar_boleto b d) = participantes d"
  by (simp add: guardar_boleto_def)

lemma boletos_guardar_boleto:
  "boletos (guardar_boleto b d) = map (\<lambda>x. if b_id x = b_id b then b else x) (boletos d)"
  by (simp add: guardar_boleto_def)

text \<open>With unique keys, a write changes the one row that has the key.\<close>

lemma guardar_una_fila:
  assumes "distinct (map b_id xs)" and "b \<in> set xs"
  shows "map (\<lambda>x. if b_id x = b_id b then b1 else x) xs = map (\<lambda>x. if x = b then b1 else x) xs"
proof (rule map_cong [OF refl])
  fix x assume "x \<in> set xs"
  moreover from assms(1) have "inj_on b_id (set xs)"
    by (simp add: distinct_map)
  ultimately have "b_id x = b_id b \<longleftrightarrow> x = b"
    using assms(2) by (auto dest: inj_onD)
  then show "(if b_id x = b_id b then b1 else x) = (if x = b then b1 else x)"
    by simp
qed

text \<open>A lookup that found the row before the write finds the written row after it.\<close>

lemma find_guardar:
  assumes "find P xs = Some b" and "P b1"
  shows "find P (map (\<lambda>x. if b_id x = b_id b then b1 else x) xs) = Some b1"
  using assms by (induction xs) (auto split: if_splits)

lemma map_columna_guardar:
  assumes "distinct (map b_id xs)" and "b \<in> set xs" and "f b1 = f b"
  shows "map f (map (\<lambda>x. if b_id x = b_id b then b1 else x) xs) = map f xs"
  unfolding guardar_una_fila [OF assms(1,2)] using assms(3) by (induction xs) auto

lemma restricciones_guardar_boleto:
  assumes "restricciones d" and "b \<in> set (boletos d)"
    and "b_id b1 = b_id b" and "numero_boleto b1 = numero_boleto b"
  shows "restricciones (guardar_boleto b1 d)"
proof -
  let ?ys = "map (\<lambda>x. if b_id x = b_id b then b1 else x) (boletos d)"
  from assms(1) have dis: "distinct (map b_id (boletos d))"
    by (simp add: restricciones_def)
  have "map b_id ?ys = map b_id (boletos d)"
    by (rule map_columna_guardar [OF dis assms(2,3)])
  moreover have "map numero_boleto ?ys = map numero_boleto (boletos d)"
    by (rule map_columna_guardar [OF dis assms(2,4)])
  ultimately show ?thesis
    using assms(1) by (simp only: restricciones_def boletos_guardar_boleto participantes_guardar_boleto assms(3))
qed

lemma agregar_participante_Inr:
  "agregar_participante nom em tel d = Inr (p, d1) \<longleftrightarrow>
     (\<exists>n e t. nom = Some n \<and> em = Some e \<and> tel = Some t \<and>
        e \<notin> email ` set (participantes d) \<and>
        p = \<lparr>p_id = siguiente_id (map p_id (participantes d)),
             nombre = n, email = e, telefono = t\<rparr> \<and>
        d1 = d\<lparr>participantes := participantes d @ [p]\<rparr>)"
  by (auto simp: agregar_participante_def Let_def split: option.split)

lemma agregar_participante_Inl:
  "agregar_participante nom em tel d = Inl x \<longleftrightarrow>
     x = IntegrityError \<and>
     (nom = None \<or> em = None \<or> tel = None \<or>
      (\<exists>e. em = Some e \<and> e \<in> email ` set (participantes d)))"
  by (auto simp: agregar_participante_def Let_def split: option.split)

lemma restricciones_agregar_participante:
  assumes "restricciones d" and "agregar_participante nom em tel d = Inr (p, d1)"
  shows "restricciones d1"
  using assms siguiente_id_nuevo [of "map p_id (participantes d)"]
  by (auto simp: restricciones_def agregar_participante_Inr)

subsection \<open>The branches of apartar\<close>

text \<open>
  Every run of \<open>apartar\<close> on a POST is one of six: the number cannot be looked up, no
  ticket has it, the ticket is not \<open>disponible\<close>, the participant is found, the
  participant is created, or the participant cannot be created.
\<close>

lemma apartar_post_casos:
  assumes post: "req_method req = POST"
  obtains
    (desborde) "\<not> sqlite_integer num"
      "apartar cfg now req num d = (Inl (InternalServerError OverflowError), d)"
  | (ausente) "boleto_por_numero num d = Inr None"
      "apartar cfg now req num d = (Inl NotFound, d)"
  | (ocupado) b where "boleto_por_numero num d = Inr (Some b)" "estado b \<noteq> ''disponible''"
      "apartar cfg now req num d = (Inr (Redirect_index ''danger''), d)"
  | (existente) b p where "boleto_por_numero num d = Inr (Some b)" "estado b = ''disponible''"
      "participante_por_email (form_email (req_form req)) d = Some p"
      "apartar cfg now req num d =
         (Inr (Redirect_whatsapp (WHATSAPP_ADMIN cfg) num
                 (form_nombre (req_form req)) (form_email (req_form req))),
          guardar_boleto
            (b\<lparr>estado := ''apartado'', participante_id := Some (p_id p),
               fecha_apartado := Some now\<rparr>) d)"
  | (nuevo) b n e t where "boleto_por_numero num d = Inr (Some b)" "estado b = ''disponible''"
      "form_nombre (req_form req) = Some n" "form_email (req_form req) = Some e"
      "form_telefono (req_form req) = Some t" "e \<notin> email ` set (participantes d)"
      "apartar cfg now req num d =
         (Inr (Redirect_whatsapp (WHATSAPP_ADMIN cfg) num (Some n) (Some e)),
          guardar_boleto
            (b\<lparr>estado := ''apartado'',
               participante_id := Some (siguiente_id (map p_id (participantes d))),
               fecha_apartado := Some now\<rparr>)
            (d\<lparr>participantes := participantes d @
                 [\<lparr>p_id = siguiente_id (map p_id (participantes d)),
                   nombre = n, email = e, telefono = t\<rparr>]\<rparr>))"
  | (incompleto) b where "boleto_por_numero num d = Inr (Some b)" "estado b = ''disponible''"
      "participante_por_email (form_email (req_form req)) d = None"
      "form_nombre (req_form req) = None \<or> form_email (req_form req) = None \<or>
       form_telefono (req_form req) = None"
      "apartar cfg now req num d = (Inl (InternalServerError IntegrityError), d)"
proof (cases "boleto_por_numero num d")
  case (Inl e)
  then have "\<not> sqlite_integer num" "e = OverflowError"
    by (simp_all add: boleto_por_numero_Inl)
  with Inl show ?thesis
    by (intro desborde) (simp_all add: apartar_def)
next
  case (Inr found)
  show ?thesis
  proof (cases found)
    case None
    with Inr show ?thesis
      by (intro ausente) (simp_all add: apartar_def)
  next
    case (Some b)
    with Inr have b: "boleto_por_numero num d = Inr (Some b)"
      by simp
    then have num: "numero_boleto b = num"
      using boleto_por_numero_Some by blast
    show ?thesis
    proof (cases "estado b = ''disponible''")
      case False
      with b post show ?thesis
        by (intro ocupado [of b]) (simp_all add: apartar_def)
    next
      case True
      show ?thesis
      proof (cases "participante_por_email (form_email (req_form req)) d")
        case (Some p)
        with b post True num show ?thesis
          by (intro existente [of b p]) (simp_all add: apartar_def)
      next
        case None
        show ?thesis
        proof (cases "agregar_participante (form_nombre (req_form req))
            (form_email (req_form req)) (form_telefono (req_form req)) d")
          case (Inl x)
          then have x: "x = IntegrityError"
            and falta: "form_nombre (req_form req) = None \<or> form_email (req_form req) = None \<or>
              form_telefono (req_form req) = None"
            using None by (auto simp: agregar_participante_Inl participante_por_email_None)
          from b post True None Inl x show ?thesis
            by (intro incompleto [of b] falta) (simp_all add: apartar_def)
        next
          case (Inr pd)
          obtain p d1 where pd: "pd = (p, d1)"
            by (cases pd)
          with Inr obtain n e t where campos: "form_nombre (req_form req) = Some n"
              "form_email (req_form req) = Some e" "form_telefono (req_form req) = Some t"
              "e \<notin> email ` set (participantes d)"
            and p: "p = \<lparr>p_id = siguiente_id (map p_id (participantes d)),
                       nombre = n, email = e, telefono = t\<rparr>"
            and d1: "d1 = d\<lparr>participantes := participantes d @ [p]\<rparr>"
            by (auto simp: agregar_participante_Inr)
          from b post True None Inr pd p d1 campos num show ?thesis
            by (intro nuevo [of b n e t]) (simp_all add: apartar_def)
        qed
      qed
    qed
  qed
qed

lemma apartar_no_post:
  assumes "req_method req \<noteq> POST"
  shows "snd (apartar cfg now req num d) = d"
  using assms by (simp add: apartar_def split: sum.split option.split)

subsection \<open>The start-up loop\<close>

lemma participantes_crear_boletos [simp]:
  "participantes (crear_boletos nums d) = participantes d"
  by (induction nums arbitrary: d) (simp_all add: agregar_boleto_def)

lemma numeros_crear_boletos:
  "map numero_boleto (boletos (crear_boletos nums d)) = map numero_boleto (boletos d) @ nums"
  by (induction nums arbitrary: d) (simp_all add: agregar_boleto_def)

lemma filas_crear_boletos:
  "b \<in> set (boletos (crear_boletos nums d)) \<Longrightarrow>
   b \<in> set (boletos d) \<or>
   estado b = ''disponible'' \<and> fecha_apartado b = None \<and> participante_id b = None"
  by (induction nums arbitrary: d) (fastforce simp: agregar_boleto_def)+

subsection \<open>The loop of the sweeper\<close>

lemma participantes_liberar_todos [simp]:
  "participantes (liberar_todos sel d) = participantes d"
  by (induction sel arbitrary: d) simp_all

lemma b_id_liberar [simp]: "b_id (liberar b) = b_id b"
  by (simp add: liberar_def)

lemma find_concat:
  "find P (xs @ ys) = (case find P xs of None \<Rightarrow> find P ys | Some x \<Rightarrow> Some x)"
  by (induction xs) simp_all

lemma find_Some_en:
  "find P xs = Some b \<Longrightarrow> b \<in> set xs \<and> P b"
  by (induction xs) (auto split: if_splits)

text \<open>
  Each row ends as the release of the last selected ticket with its key, or as it was
  when no selected ticket has its key.
\<close>

lemma boletos_liberar_todos:
  "boletos (liberar_todos sel d) =
     map (\<lambda>x. case find (\<lambda>b. b_id b = b_id x) (rev sel) of
                 None \<Rightarrow> x | Some b \<Rightarrow> liberar b) (boletos d)"
proof (induction sel arbitrary: d)
  case Nil
  show ?case by simp
next
  case (Cons s sel)
  show ?case
    by (simp add: Cons.IH boletos_guardar_boleto find_concat split: option.split)
qed

text \<open>With unique keys, the selected ticket with the key of a row is that row.\<close>

lemma find_filter_clave:
  assumes "distinct (map b_id xs)" and "x \<in> set xs"
  shows "find (\<lambda>b. b_id b = b_id x) (rev (filter P xs)) = (if P x then Some x else None)"
proof -
  from assms(1) have inj: "inj_on b_id (set xs)"
    by (simp add: distinct_map)
  show ?thesis
  proof (cases "find (\<lambda>b. b_id b = b_id x) (rev (filter P xs))")
    case None
    then have "\<not> P x"
      using assms(2) by (auto simp: find_None_iff)
    with None show ?thesis by simp
  next
    case (Some b)
    then have "b \<in> set xs" "P b" "b_id b = b_id x"
      by (auto dest: find_Some_en)
    then show ?thesis
      using Some inj assms(2) by (auto dest: inj_onD)
  qed
qed

lemma expirado_iff:
  "expirado limite b \<longleftrightarrow>
     estado b = ''apartado'' \<and> (\<exists>t. fecha_apartado b = Some t \<and> t < limite)"
  by (simp add: expirado_def split: option.split)

lemma liberar_seleccion:
  assumes "distinct (map b_id (boletos d))"
  shows "boletos (liberar_todos (filter P (boletos d)) d) =
           map (\<lambda>x. if P x then liberar x else x) (boletos d)"
  unfolding boletos_liberar_todos
  by (rule map_cong [OF refl]) (simp add: find_filter_clave [OF assms])

subsection \<open>Properties of every row\<close>

lemma list_all_guardar_boleto:
  "list_all Q (boletos d) \<Longrightarrow> Q b1 \<Longrightarrow> list_all Q (boletos (guardar_boleto b1 d))"
  by (auto simp: boletos_guardar_boleto list_all_iff)

lemma list_all_liberar_todos:
  "list_all Q (boletos d) \<Longrightarrow> (\<And>b. Q (liberar b)) \<Longrightarrow>
   list_all Q (boletos (liberar_todos sel d))"
  by (induction sel arbitrary: d) (simp_all add: list_all_guardar_boleto)

lemma list_all_crear_boletos:
  "list_all Q (boletos d) \<Longrightarrow>
   (\<And>k i. Q \<lparr>b_id = k, numero_boleto = i, estado = ''disponible'',
              fecha_apartado = None, participante_id = None\<rparr>) \<Longrightarrow>
   list_all Q (boletos (crear_boletos nums d))"
  by (induction nums arbitrary: d) (simp_all add: agregar_boleto_def)

lemma list_all_liberar_boletos_expirados:
  "list_all Q (boletos d) \<Longrightarrow> (\<And>b. Q (liberar b)) \<Longrightarrow>
   list_all Q (boletos (fst (liberar_boletos_expirados now d)))"
  by (simp add: liberar_boletos_expirados_def Let_def list_all_liberar_todos)

lemma list_all_bootstrap:
  "list_all Q (boletos d) \<Longrightarrow>
   (\<And>k i. Q \<lparr>b_id = k, numero_boleto = i, estado = ''disponible'',
              fecha_apartado = None, participante_id = None\<rparr>) \<Longrightarrow>
   list_all Q (boletos (bootstrap d))"
  by (simp add: bootstrap_def list_all_crear_boletos)

lemma list_all_apartar:
  assumes "list_all Q (boletos d)"
    and "\<And>b k. Q (b\<lparr>estado := ''apartado'', participante_id := Some k,
                      fecha_apartado := Some now\<rparr>)"
  shows "list_all Q (boletos (snd (apartar cfg now req num d)))"
proof (cases "req_method req = POST")
  case False
  with assms(1) show ?thesis
    by (simp add: apartar_no_post)
next
  case True
  then show ?thesis
  proof (cases rule: apartar_post_casos [where num = num and d = d and cfg = cfg and now = now])
    case (existente b p)
    with assms show ?thesis
      by (simp add: list_all_guardar_boleto)
  next
    case (nuevo b n e t)
    with assms show ?thesis
      by (auto simp: boletos_guardar_boleto list_all_iff)
  qed (use assms(1) in simp_all)
qed

lemma list_all_confirmar:
  assumes "list_all Q (boletos d)"
    and "\<And>b. boleto_por_id pk d = Inr (Some b) \<Longrightarrow> Q b \<Longrightarrow> Q (b\<lparr>estado := ''vendido''\<rparr>)"
  shows "list_all Q (boletos (snd (confirmar cfg pk codigo d)))"
proof (cases "boleto_por_id pk d")
  case (Inl e)
  with assms(1) show ?thesis
    by (simp add: confirmar_def)
next
  case (Inr found)
  show ?thesis
  proof (cases found)
    case None
    with Inr assms(1) show ?thesis
      by (simp add: confirmar_def)
  next
    case (Some b)
    with Inr have b: "boleto_por_id pk d = Inr (Some b)"
      by simp
    then have "b \<in> set (boletos d)"
      using boleto_por_id_Some by blast
    with assms(1) have "Q b"
      by (simp add: list_all_iff)
    with b have "Q (b\<lparr>estado := ''vendido''\<rparr>)"
      by (rule assms(2))
    with b assms(1) show ?thesis
      by (simp add: confirmar_def list_all_guardar_boleto)
  qed
qed

text \<open>
  "A participant exactly when \<open>apartado\<close> or \<open>vendido\<close>" is kept by \<open>apartar\<close>, by the
  sweeper and by the start-up block, and by \<open>confirmar\<close> when the ticket it finds is
  \<open>apartado\<close> or \<open>vendido\<close>.
\<close>

lemma propietario_iff_invariante:
  assumes inv: "list_all propietario_iff (boletos d)"
  shows "list_all propietario_iff (boletos (snd (apartar cfg now req num d)))"
    and "list_all propietario_iff (boletos (fst (liberar_boletos_expirados now d)))"
    and "list_all propietario_iff (boletos (bootstrap d))"
    and "(\<And>b. boleto_por_id pk d = Inr (Some b) \<Longrightarrow>
             estado b = ''apartado'' \<or> estado b = ''vendido'') \<Longrightarrow>
         list_all propietario_iff (boletos (snd (confirmar cfg pk codigo d)))"
proof -
  show "list_all propietario_iff (boletos (snd (apartar cfg now req num d)))"
    by (rule list_all_apartar [OF inv]) (simp add: propietario_iff_def)
  show "list_all propietario_iff (boletos (fst (liberar_boletos_expirados now d)))"
    by (rule list_all_liberar_boletos_expirados [OF inv]) (simp add: propietario_iff_def liberar_def)
  show "list_all propietario_iff (boletos (bootstrap d))"
    by (rule list_all_bootstrap [OF inv]) (simp add: propietario_iff_def)
  show "list_all propietario_iff (boletos (snd (confirmar cfg pk codigo d)))"
    if "\<And>b. boleto_por_id pk d = Inr (Some b) \<Longrightarrow>
          estado b = ''apartado'' \<or> estado b = ''vendido''"
    by (rule list_all_confirmar [OF inv]) (use that in \<open>auto simp: propietario_iff_def\<close>)
qed

subsection \<open>The declared constraints hold in every store the operations build\<close>

lemma claves_crear_boletos:
  "distinct (map b_id (boletos d)) \<Longrightarrow> distinct (map b_id (boletos (crear_boletos nums d)))"
proof (induction nums arbitrary: d)
  case Nil
  then show ?case by simp
next
  case (Cons i nums)
  have "distinct (map b_id (boletos (agregar_boleto i d)))"
    using Cons.prems siguiente_id_nuevo [of "map b_id (boletos d)"]
    by (simp add: agregar_boleto_def)
  then show ?case
    by (simp add: Cons.IH)
qed

lemma restricciones_bootstrap:
  assumes "restricciones d"
  shows "restricciones (bootstrap d)"
proof (cases "boletos d = []")
  case True
  then have "map numero_boleto (boletos (crear_boletos [0..99] d)) = [0..99]"
    by (simp add: numeros_crear_boletos)
  then have "distinct (map numero_boleto (boletos (crear_boletos [0..99] d)))"
    by (simp only: distinct_upto)
  moreover have "distinct (map b_id (boletos (crear_boletos [0..99] d)))"
    using True by (intro claves_crear_boletos) simp
  ultimately show ?thesis
    using assms True by (simp add: restricciones_def bootstrap_def)
next
  case False
  with assms show ?thesis
    by (simp add: bootstrap_def)
qed

lemma restricciones_liberar_boletos_expirados:
  assumes "restricciones d"
  shows "restricciones (fst (liberar_boletos_expirados now d))"
proof -
  from assms have dis: "distinct (map b_id (boletos d))"
    by (simp add: restricciones_def)
  have "restricciones (liberar_todos (filter P (boletos d)) d)" for P
  proof -
    have "map b_id (map (\<lambda>x. if P x then liberar x else x) (boletos d)) = map b_id (boletos d)"
      and "map numero_boleto (map (\<lambda>x. if P x then liberar x else x) (boletos d)) =
           map numero_boleto (boletos d)"
      by (simp_all add: liberar_def)
    then show ?thesis
      using assms by (simp only: restricciones_def liberar_seleccion [OF dis]
          participantes_liberar_todos)
  qed
  with assms show ?thesis
    by (simp add: liberar_boletos_expirados_def Let_def)
qed

lemma restricciones_confirmar:
  assumes "restricciones d"
  shows "restricciones (snd (confirmar cfg pk codigo d))"
proof (cases "\<exists>b. boleto_por_id pk d = Inr (Some b)")
  case True
  then obtain b where b: "boleto_por_id pk d = Inr (Some b)"
    by blast
  then have "b \<in> set (boletos d)"
    using boleto_por_id_Some by blast
  then have "restricciones (guardar_boleto (b\<lparr>estado := ''vendido''\<rparr>) d)"
    by (intro restricciones_guardar_boleto [OF assms]) simp_all
  with b assms show ?thesis
    by (simp add: confirmar_def)
next
  case False
  then have "snd (confirmar cfg pk codigo d) = d"
    by (auto simp: confirmar_def split: sum.split option.split)
  with assms show ?thesis by simp
qed

lemma restricciones_apartar:
  assumes "restricciones d"
  shows "restricciones (snd (apartar cfg now req num d))"
proof (cases "req_method req = POST")
  case False
  with assms show ?thesis
    by (simp add: apartar_no_post)
next
  case True
  then show ?thesis
  proof (cases rule: apartar_post_casos [where num = num and d = d and cfg = cfg and now = now])
    case (existente b p)
    then have "b \<in> set (boletos d)"
      using boleto_por_numero_Some by blast
    with existente assms show ?thesis
      by (simp add: restricciones_guardar_boleto [where b = b])
  next
    case (nuevo b n e t)
    let ?d1 = "d\<lparr>participantes := participantes d @
        [\<lparr>p_id = siguiente_id (map p_id (participantes d)),
          nombre = n, email = e, telefono = t\<rparr>]\<rparr>"
    have "restricciones ?d1"
      using assms nuevo(6) siguiente_id_nuevo [of "map p_id (participantes d)"]
      by (simp add: restricciones_def)
    moreover have "b \<in> set (boletos ?d1)"
      using nuevo(1) boleto_por_numero_Some by fastforce
    ultimately show ?thesis
      using nuevo by (simp add: restricciones_guardar_boleto [where b = b])
  qed (use assms in simp_all)
qed

subsection \<open>Facts of the concrete stores\<close>

lemma method_post_ana: "req_method post_ana = POST"
  by (simp add: post_ana_def)

lemma db_inicial_42:
  "boleto_por_numero 42 db_inicial =
     Inr (Some \<lparr>b_id = 43, numero_boleto = 42, estado = ''disponible'',
           fecha_apartado = None, participante_id = None\<rparr>)"
  by code_simp

lemma db_inicial_sin_100: "(100::int) \<notin> numero_boleto ` set (boletos db_inicial)"
  by code_simp

lemma db_ana_42:
  "boleto_por_numero 42 db_ana =
     Inr (Some \<lparr>b_id = 43, numero_boleto = 42, estado = ''apartado'',
           fecha_apartado = Some t0, participante_id = Some 1\<rparr>)"
  by code_simp


lemma restricciones_db_ana: "restricciones db_ana"
  by code_simp




lemma db_ana_pk43:
  "boleto_por_id 43 db_ana =
     Inr (Some \<lparr>b_id = 43, numero_boleto = 42, estado = ''apartado'',
           fecha_apartado = Some t0, participante_id = Some 1\<rparr>)"
  by code_simp

lemma db_inicial_sin_eva: "participante_por_email (Some ''eva@x.com'') db_inicial = None"
  by code_simp

lemma db_inicial_sin_2_63:
  "(9223372036854775808::int) \<notin> numero_boleto ` set (boletos db_inicial)"
  by code_simp


lemma restricciones_db_escenario: "restricciones db_escenario"
  by code_simp

lemma barrido_escenario:
  "boleto_por_numero 42 db_escenario =
     Inr (Some \<lparr>b_id = 43, numero_boleto = 42, estado = ''apartado'',
           fecha_apartado = Some t0, participante_id = Some 1\<rparr>) \<and>
   boleto_por_numero 42 (fst (liberar_boletos_expirados (t0 + timedelta_minutes 121) db_escenario)) =
     Inr (Some \<lparr>b_id = 43, numero_boleto = 42, estado = ''disponible'',
           fecha_apartado = None, participante_id = None\<rparr>) \<and>
   boleto_por_numero 9 (fst (liberar_boletos_expirados (t0 + timedelta_minutes 121) db_escenario)) =
     Inr (Some \<lparr>b_id = 10, numero_boleto = 9, estado = ''apartado'',
           fecha_apartado = Some (t0 + timedelta_minutes 1), participante_id = Some 2\<rparr>) \<and>
   boleto_por_numero 7 (fst (liberar_boletos_expirados (t0 + timedelta_minutes 121) db_escenario)) =
     Inr (Some \<lparr>b_id = 8, numero_boleto = 7, estado = ''apartado'',
           fecha_apartado = Some (t0 + timedelta_minutes 120), participante_id = Some 2\<rparr>) \<and>
   boleto_por_numero 8 (fst (liberar_boletos_expirados (t0 + timedelta_minutes 121) db_escenario)) =
     Inr (Some \<lparr>b_id = 9, numero_boleto = 8, estado = ''vendido'',
           fecha_apartado = Some t0, participante_id = Some 1\<rparr>) \<and>
   snd (liberar_boletos_expirados (t0 + timedelta_minutes 121) db_escenario) = 1"
  by code_simp

section \<open>Access control\<close>

text \<open>
  C9. The admin list and the confirmation answer 403 (Forbidden) if and only if the code
  in the URL differs from the configured admin code; on a mismatch the answer is the same
  whatever the store holds, and the store is returned as it was.
\<close>

theorem forbidden_iff_mismatch:
  "(fst (admin cfg codigo d) = Inl Forbidden \<longleftrightarrow> codigo \<noteq> ADMIN_SECRET_CODE cfg) \<and>
   (fst (confirmar cfg pk codigo d) = Inl Forbidden \<longleftrightarrow> codigo \<noteq> ADMIN_SECRET_CODE cfg) \<and>
   (codigo \<noteq> ADMIN_SECRET_CODE cfg \<longrightarrow>
      admin cfg codigo d = (Inl Forbidden, d) \<and>
      confirmar cfg pk codigo d = (Inl Forbidden, d) \<and>
      fst (admin cfg codigo d) = fst (admin cfg codigo d') \<and>
      fst (confirmar cfg pk codigo d) = fst (confirmar cfg pk codigo d'))"
  by (simp add: admin_def confirmar_def Let_def split: sum.split option.split)

theorem forbidden_iff_mismatch_witness:
  "admin cfg0 ''admin124'' db_ana = (Inl Forbidden, db_ana) \<and>
   confirmar cfg0 43 ''admin124'' db_ana = (Inl Forbidden, db_ana) \<and>
   fst (admin cfg0 ''admin123'' db_ana) \<noteq> Inl Forbidden \<and>
   fst (confirmar cfg0 43 ''admin123'' db_ana) \<noteq> Inl Forbidden"
  using forbidden_iff_mismatch [of cfg0 "''admin124''" db_ana 43 db_vacia]
        forbidden_iff_mismatch [of cfg0 "''admin123''" db_ana 43 db_vacia]
  by (simp add: cfg0_def)

section \<open>Reserving a ticket\<close>

text \<open>
  C4, as the code has it. A POST to \<open>apartar\<close> (Reserve) answers 404 (NotFound) exactly
  when the number is one the store can look up and no ticket has it; it answers with the
  flashed redirect to the index (Conflict, a different answer) exactly when the ticket
  exists and is not \<open>disponible\<close>; and it succeeds (the redirect to WhatsApp) exactly
  when the ticket exists, is \<open>disponible\<close>, and the participant is found by the form's
  email or the form carries all three fields. The two remaining answers are the 500 of a
  number that cannot be looked up, and the 500 of a participant that is neither found nor
  complete.
\<close>

theorem apartar_post_resultado:
  assumes "req_method req = POST"
  shows "(fst (apartar cfg now req num d) = Inl NotFound \<longleftrightarrow>
            sqlite_integer num \<and> num \<notin> numero_boleto ` set (boletos d)) \<and>
         (fst (apartar cfg now req num d) = Inr (Redirect_index ''danger'') \<longleftrightarrow>
            (\<exists>b. boleto_por_numero num d = Inr (Some b) \<and> estado b \<noteq> ''disponible'')) \<and>
         (fst (apartar cfg now req num d) =
            Inr (Redirect_whatsapp (WHATSAPP_ADMIN cfg) num
                   (form_nombre (req_form req)) (form_email (req_form req))) \<longleftrightarrow>
            (\<exists>b. boleto_por_numero num d = Inr (Some b) \<and> estado b = ''disponible'' \<and>
                 (participante_por_email (form_email (req_form req)) d \<noteq> None \<or>
                  form_nombre (req_form req) \<noteq> None \<and> form_email (req_form req) \<noteq> None \<and>
                  form_telefono (req_form req) \<noteq> None))) \<and>
         (fst (apartar cfg now req num d) = Inl (InternalServerError OverflowError) \<longleftrightarrow>
            \<not> sqlite_integer num) \<and>
         (fst (apartar cfg now req num d) = Inl (InternalServerError IntegrityError) \<longleftrightarrow>
            (\<exists>b. boleto_por_numero num d = Inr (Some b) \<and> estado b = ''disponible'' \<and>
                 participante_por_email (form_email (req_form req)) d = None \<and>
                 (form_nombre (req_form req) = None \<or> form_email (req_form req) = None \<or>
                  form_telefono (req_form req) = None)))"
  using assms
proof (cases rule: apartar_post_casos [where num = num and d = d and cfg = cfg and now = now])
  case desborde
  then show ?thesis
    by (simp add: boleto_por_numero_def)
next
  case ausente
  then show ?thesis
    using boleto_por_numero_None [of num d] by simp
next
  case (ocupado b)
  then have "sqlite_integer num" "num \<in> numero_boleto ` set (boletos d)"
    using boleto_por_numero_Inr [of num d] boleto_por_numero_Some [of num d b] by auto
  with ocupado show ?thesis
    by simp
next
  case (existente b p)
  then have "sqlite_integer num" "num \<in> numero_boleto ` set (boletos d)"
    using boleto_por_numero_Inr [of num d] boleto_por_numero_Some [of num d b] by auto
  with existente show ?thesis
    by simp
next
  case (nuevo b n e t)
  then have "sqlite_integer num" "num \<in> numero_boleto ` set (boletos d)"
    using boleto_por_numero_Inr [of num d] boleto_por_numero_Some [of num d b] by auto
  with nuevo show ?thesis
    by simp
next
  case (incompleto b)
  then have "sqlite_integer num" "num \<in> numero_boleto ` set (boletos d)"
    using boleto_por_numero_Inr [of num d] boleto_por_numero_Some [of num d b] by auto
  with incompleto show ?thesis
    by auto
qed

theorem apartar_post_resultado_witness:
  "fst (apartar cfg0 t0 post_ana 100 db_inicial) = Inl NotFound \<and>
   fst (apartar cfg0 t0 post_ana 42 db_inicial) =
     Inr (Redirect_whatsapp ''5560967913'' 42 (Some ''Ana'') (Some ''ana@x.com'')) \<and>
   fst (apartar cfg0 (t0 + 1) post_ana 42 db_ana) = Inr (Redirect_index ''danger'') \<and>
   fst (apartar cfg0 t0 post_ana 9223372036854775808 db_inicial) =
     Inl (InternalServerError OverflowError) \<and>
   fst (apartar cfg0 t0 post_sin_nombre 42 db_inicial) =
     Inl (InternalServerError IntegrityError)"
proof -
  have sin_nombre: "req_method post_sin_nombre = POST"
    by (simp add: post_sin_nombre_def)
  show ?thesis
    using apartar_post_resultado [OF method_post_ana, of cfg0 t0 100 db_inicial]
          apartar_post_resultado [OF method_post_ana, of cfg0 t0 42 db_inicial]
          apartar_post_resultado [OF method_post_ana, of cfg0 "t0 + 1" 42 db_ana]
          apartar_post_resultado [OF method_post_ana, of cfg0 t0 9223372036854775808 db_inicial]
          apartar_post_resultado [OF sin_nombre, of cfg0 t0 42 db_inicial]
          db_inicial_42 db_inicial_sin_100 db_ana_42 db_inicial_sin_eva
    by (simp add: cfg0_def post_ana_def post_sin_nombre_def sqlite_integer_def)
qed

text \<open>
  C4, as stated, fails twice on the store the start-up block builds. No ticket has the
  number \<open>2\<^sup>6\<^sup>3\<close>, and the answer to a POST for it is a 500, not NotFound. Ticket 42
  exists and is \<open>disponible\<close>, and a POST from an unseen email with no \<open>nombre\<close> is
  answered with a 500, not with success; the store is left as it was.
\<close>

theorem apartar_post_resultado_counterexample:
  "(9223372036854775808::int) \<notin> numero_boleto ` set (boletos db_inicial) \<and>
   apartar cfg0 t0 post_ana 9223372036854775808 db_inicial =
     (Inl (InternalServerError OverflowError), db_inicial) \<and>
   boleto_por_numero 42 db_inicial =
     Inr (Some \<lparr>b_id = 43, numero_boleto = 42, estado = ''disponible'',
                fecha_apartado = None, participante_id = None\<rparr>) \<and>
   apartar cfg0 t0 post_sin_nombre 42 db_inicial =
     (Inl (InternalServerError IntegrityError), db_inicial)"
  by code_simp

text \<open>
  C10. When \<open>apartar\<close> answers NotFound or Conflict, the store it leaves is the store it
  found: no participant row is added and no ticket row is written. On a POST these are
  the answers for a number no ticket has and for a ticket that is not \<open>disponible\<close>.
\<close>

theorem apartar_fallo_sin_cambios:
  "(fst (apartar cfg now req num d) = Inl NotFound \<or>
    fst (apartar cfg now req num d) = Inr (Redirect_index ''danger'') \<longrightarrow>
    snd (apartar cfg now req num d) = d) \<and>
   (req_method req = POST \<and>
    (boleto_por_numero num d = Inr None \<or>
     (\<exists>b. boleto_por_numero num d = Inr (Some b) \<and> estado b \<noteq> ''disponible'')) \<longrightarrow>
    snd (apartar cfg now req num d) = d)"
proof (cases "req_method req = POST")
  case False
  then show ?thesis
    by (simp add: apartar_no_post)
next
  case True
  then show ?thesis
    by (cases rule: apartar_post_casos [where num = num and d = d and cfg = cfg and now = now])
      auto
qed

theorem apartar_fallo_sin_cambios_witness:
  "snd (apartar cfg0 t0 post_ana 100 db_inicial) = db_inicial \<and>
   snd (apartar cfg0 (t0 + 1) post_luis 42 db_ana) = db_ana"
proof -
  have "boleto_por_numero 100 db_inicial = Inr None"
    using db_inicial_sin_100 by (simp add: boleto_por_numero_None sqlite_integer_def)
  moreover have "req_method post_luis = POST"
    by (simp add: post_luis_def)
  ultimately show ?thesis
    using apartar_fallo_sin_cambios [of cfg0 t0 post_ana 100 db_inicial]
          apartar_fallo_sin_cambios [of cfg0 "t0 + 1" post_luis 42 db_ana]
          method_post_ana db_ana_42
    by simp
qed





section \<open>Confirming a sale\<close>

text \<open>
  C6. With the right code, \<open>confirmar\<close> on a ticket that is \<open>apartado\<close> makes it
  \<open>vendido\<close> and keeps its timestamp, its participant, its number and its key; every
  other ticket row and the table of participants are unchanged.
\<close>

theorem confirmar_apartado_efecto:
  assumes cod: "codigo = ADMIN_SECRET_CODE cfg" and res: "restricciones d"
    and b: "boleto_por_id pk d = Inr (Some b)" and est: "estado b = ''apartado''"
    and d': "d' = snd (confirmar cfg pk codigo d)"
  shows "(\<exists>b'. boleto_por_id pk d' = Inr (Some b') \<and> estado b' = ''vendido'' \<and>
               fecha_apartado b' = fecha_apartado b \<and>
               participante_id b' = participante_id b \<and>
               numero_boleto b' = numero_boleto b \<and> b_id b' = b_id b) \<and>
         boletos d' = map (\<lambda>x. if x = b then b\<lparr>estado := ''vendido''\<rparr> else x) (boletos d) \<and>
         participantes d' = participantes d \<and>
         fst (confirmar cfg pk codigo d) =
           Inr (Redirect_admin ''success'' (numero_boleto b) codigo)"
proof -
  from b have mem: "b \<in> set (boletos d)" and pk: "b_id b = pk"
    using boleto_por_id_Some by blast+
  from b have rango: "sqlite_integer pk"
    by (auto simp: boleto_por_id_def split: if_splits)
  from res have dis: "distinct (map b_id (boletos d))"
    by (simp add: restricciones_def)
  have d'_eq: "d' = guardar_boleto (b\<lparr>estado := ''vendido''\<rparr>) d"
    using cod b by (simp add: d' confirmar_def)
  have "find (\<lambda>x. b_id x = pk)
          (map (\<lambda>x. if b_id x = b_id b then b\<lparr>estado := ''vendido''\<rparr> else x) (boletos d)) =
        Some (b\<lparr>estado := ''vendido''\<rparr>)"
    using b pk rango by (intro find_guardar) (simp_all add: boleto_por_id_def)
  then have "boleto_por_id pk d' = Inr (Some (b\<lparr>estado := ''vendido''\<rparr>))"
    using rango by (simp add: d'_eq boleto_por_id_def boletos_guardar_boleto)
  moreover have "boletos d' = map (\<lambda>x. if x = b then b\<lparr>estado := ''vendido''\<rparr> else x) (boletos d)"
    by (simp add: d'_eq boletos_guardar_boleto guardar_una_fila [OF dis mem])
  moreover have "fst (confirmar cfg pk codigo d) =
      Inr (Redirect_admin ''success'' (numero_boleto b) codigo)"
    using cod b by (simp add: confirmar_def)
  ultimately show ?thesis
    by (simp add: d'_eq)
qed

theorem confirmar_apartado_efecto_witness:
  "(\<exists>b'. boleto_por_id 43 (snd (confirmar cfg0 43 ''admin123'' db_ana)) = Inr (Some b') \<and>
         estado b' = ''vendido'' \<and> fecha_apartado b' = Some t0 \<and>
         participante_id b' = Some 1 \<and> numero_boleto b' = 42) \<and>
   participantes (snd (confirmar cfg0 43 ''admin123'' db_ana)) = participantes db_ana"
proof -
  have "''admin123'' = ADMIN_SECRET_CODE cfg0"
    by (simp add: cfg0_def)
  from confirmar_apartado_efecto [OF this restricciones_db_ana db_ana_pk43 _ refl]
  show ?thesis
    by auto
qed

section \<open>The start-up block\<close>

text \<open>
  C7. On a store with no ticket the start-up block creates one ticket for each number
  0, 1, ..., 99 (100 tickets, in this order), each \<open>disponible\<close> with no timestamp and
  no participant, and leaves the participants alone; on a store that holds a ticket it
  changes nothing. Running it a second time changes nothing.
\<close>

theorem bootstrap_cien_boletos:
  "(boletos d = [] \<longrightarrow>
      map numero_boleto (boletos (bootstrap d)) = [0..99] \<and>
      length (boletos (bootstrap d)) = 100 \<and>
      (\<forall>b \<in> set (boletos (bootstrap d)).
         estado b = ''disponible'' \<and> fecha_apartado b = None \<and> participante_id b = None) \<and>
      participantes (bootstrap d) = participantes d) \<and>
   (boletos d \<noteq> [] \<longrightarrow> bootstrap d = d) \<and>
   bootstrap (bootstrap d) = bootstrap d"
proof (cases "boletos d = []")
  case True
  then have nums: "map numero_boleto (boletos (bootstrap d)) = [0..99]"
    by (simp add: bootstrap_def numeros_crear_boletos)
  then have "length (map numero_boleto (boletos (bootstrap d))) = 100"
    by simp
  then have len: "length (boletos (bootstrap d)) = 100"
    by simp
  then have "boletos (bootstrap d) \<noteq> []"
    by auto
  then have "bootstrap (bootstrap d) = bootstrap d"
    by (simp add: bootstrap_def [of "bootstrap d"])
  moreover have "\<forall>b \<in> set (boletos (bootstrap d)).
      estado b = ''disponible'' \<and> fecha_apartado b = None \<and> participante_id b = None"
    using True filas_crear_boletos [of _ "[0..99]" d] by (auto simp: bootstrap_def)
  moreover have "participantes (bootstrap d) = participantes d"
    by (simp add: bootstrap_def)
  ultimately show ?thesis
    using True nums len by simp
next
  case False
  then show ?thesis
    by (simp add: bootstrap_def)
qed

theorem bootstrap_cien_boletos_witness:
  "map numero_boleto (boletos db_inicial) = [0..99] \<and>
   length (boletos db_inicial) = 100 \<and>
   bootstrap db_inicial = db_inicial \<and>
   bootstrap db_ana = db_ana"
proof -
  have "boletos db_vacia = []"
    by (simp add: db_vacia_def)
  moreover have "boletos db_ana \<noteq> []"
    by code_simp
  ultimately show ?thesis
    using bootstrap_cien_boletos [of db_vacia] bootstrap_cien_boletos [of db_ana]
    by (simp add: db_inicial_def)
qed

section \<open>The sweeper\<close>

text \<open>
  C3. The timeout is 120 minutes. One pass of the sweeper at time \<open>now\<close> rewrites exactly
  the rows whose \<open>estado\<close> is \<open>apartado\<close> and whose timestamp is strictly before
  \<open>now\<close> minus the timeout: each becomes \<open>disponible\<close> with no timestamp and no
  participant. Every other row (a fresher reservation, a ticket \<open>disponible\<close> or
  \<open>vendido\<close>) and every participant row is as before; the pass reports the number of
  rows it released.
\<close>

theorem liberar_boletos_expirados_efecto:
  assumes res: "restricciones d"
    and d': "d' = fst (liberar_boletos_expirados now d)"
    and lim: "limite = now - timedelta_minutes TIEMPO_LIMITE_MINUTOS"
  shows "TIEMPO_LIMITE_MINUTOS = 120 \<and>
         boletos d' =
           map (\<lambda>b. if estado b = ''apartado'' \<and> (\<exists>t. fecha_apartado b = Some t \<and> t < limite)
                     then b\<lparr>estado := ''disponible'', participante_id := None,
                            fecha_apartado := None\<rparr>
                     else b) (boletos d) \<and>
         participantes d' = participantes d \<and>
         snd (liberar_boletos_expirados now d) =
           length (filter (\<lambda>b. estado b = ''apartado'' \<and>
                                (\<exists>t. fecha_apartado b = Some t \<and> t < limite)) (boletos d))"
proof -
  from res have dis: "distinct (map b_id (boletos d))"
    by (simp add: restricciones_def)
  let ?sel = "filter (expirado limite) (boletos d)"
  have filas: "boletos d' = map (\<lambda>x. if expirado limite x then liberar x else x) (boletos d)"
  proof (cases "?sel = []")
    case True
    then have "\<forall>x \<in> set (boletos d). \<not> expirado limite x"
      by (simp add: filter_empty_conv)
    then have "map (\<lambda>x. if expirado limite x then liberar x else x) (boletos d) = boletos d"
      by (simp add: map_idI)
    with True show ?thesis
      by (simp add: d' lim liberar_boletos_expirados_def)
  next
    case False
    then show ?thesis
      by (simp add: d' lim liberar_boletos_expirados_def Let_def liberar_seleccion [OF dis])
  qed
  have exp: "expirado limite =
      (\<lambda>b. estado b = ''apartado'' \<and> (\<exists>t. fecha_apartado b = Some t \<and> t < limite))"
    by (rule ext) (rule expirado_iff)
  have lib: "liberar =
      (\<lambda>b. b\<lparr>estado := ''disponible'', participante_id := None, fecha_apartado := None\<rparr>)"
    by (rule ext) (rule liberar_def)
  have parts: "participantes d' = participantes d"
    by (simp add: d' liberar_boletos_expirados_def Let_def)
  have cuenta: "snd (liberar_boletos_expirados now d) = length ?sel"
    by (simp add: lim liberar_boletos_expirados_def Let_def)
  show ?thesis
    using filas [unfolded exp lib] parts cuenta [unfolded exp] TIEMPO_LIMITE_MINUTOS_def
    by (intro conjI)
qed

theorem liberar_boletos_expirados_efecto_witness:
  "boletos (fst (liberar_boletos_expirados (t0 + timedelta_minutes 121) db_escenario)) =
     map (\<lambda>b. if estado b = ''apartado'' \<and>
                  (\<exists>t. fecha_apartado b = Some t \<and>
                       t < t0 + timedelta_minutes 121 - timedelta_minutes TIEMPO_LIMITE_MINUTOS)
               then b\<lparr>estado := ''disponible'', participante_id := None, fecha_apartado := None\<rparr>
               else b) (boletos db_escenario) \<and>
   participantes (fst (liberar_boletos_expirados (t0 + timedelta_minutes 121) db_escenario)) =
     participantes db_escenario \<and>
   boleto_por_numero 42 (fst (liberar_boletos_expirados (t0 + timedelta_minutes 121) db_escenario)) =
     Inr (Some \<lparr>b_id = 43, numero_boleto = 42, estado = ''disponible'',
           fecha_apartado = None, participante_id = None\<rparr>) \<and>
   boleto_por_numero 9 (fst (liberar_boletos_expirados (t0 + timedelta_minutes 121) db_escenario)) =
     Inr (Some \<lparr>b_id = 10, numero_boleto = 9, estado = ''apartado'',
           fecha_apartado = Some (t0 + timedelta_minutes 1), participante_id = Some 2\<rparr>) \<and>
   boleto_por_numero 7 (fst (liberar_boletos_expirados (t0 + timedelta_minutes 121) db_escenario)) =
     Inr (Some \<lparr>b_id = 8, numero_boleto = 7, estado = ''apartado'',
           fecha_apartado = Some (t0 + timedelta_minutes 120), participante_id = Some 2\<rparr>) \<and>
   boleto_por_numero 8 (fst (liberar_boletos_expirados (t0 + timedelta_minutes 121) db_escenario)) =
     Inr (Some \<lparr>b_id = 9, numero_boleto = 8, estado = ''vendido'',
           fecha_apartado = Some t0, participante_id = Some 1\<rparr>) \<and>
   snd (liberar_boletos_expirados (t0 + timedelta_minutes 121) db_escenario) = 1"
  using liberar_boletos_expirados_efecto [OF restricciones_db_escenario refl refl,
          of "t0 + timedelta_minutes 121"]
        barrido_escenario
  by (intro conjI) (elim conjE, assumption)+

section \<open>Status, timestamp and participant of a ticket\<close>

text \<open>
  C1, as the code has it. Each of \<open>apartar\<close>, \<open>confirmar\<close>, the sweeper and the start-up
  block keeps this true of every ticket: a ticket that is \<open>apartado\<close> has a timestamp
  and a participant, and a ticket that has both is \<open>apartado\<close> or \<open>vendido\<close>. The
  equivalence "\<open>apartado\<close> exactly when both are there" is kept by \<open>apartar\<close>, the
  sweeper and the start-up block. The empty store satisfies both.
\<close>

theorem apartado_coherente_invariante:
  "(list_all apartado_coherente (boletos d) \<longrightarrow>
      list_all apartado_coherente (boletos (snd (apartar cfg now req num d))) \<and>
      list_all apartado_coherente (boletos (snd (confirmar cfg pk codigo d))) \<and>
      list_all apartado_coherente (boletos (fst (liberar_boletos_expirados now d))) \<and>
      list_all apartado_coherente (boletos (bootstrap d))) \<and>
   (list_all apartado_iff (boletos d) \<longrightarrow>
      list_all apartado_iff (boletos (snd (apartar cfg now req num d))) \<and>
      list_all apartado_iff (boletos (fst (liberar_boletos_expirados now d))) \<and>
      list_all apartado_iff (boletos (bootstrap d))) \<and>
   list_all apartado_coherente (boletos db_vacia)"
proof (intro conjI impI)
  assume inv: "list_all apartado_coherente (boletos d)"
  show "list_all apartado_coherente (boletos (snd (apartar cfg now req num d)))"
    by (rule list_all_apartar [OF inv]) (simp add: apartado_coherente_def)
  show "list_all apartado_coherente (boletos (snd (confirmar cfg pk codigo d)))"
    by (rule list_all_confirmar [OF inv]) (simp add: apartado_coherente_def)
  show "list_all apartado_coherente (boletos (fst (liberar_boletos_expirados now d)))"
    by (rule list_all_liberar_boletos_expirados [OF inv])
      (simp add: apartado_coherente_def liberar_def)
  show "list_all apartado_coherente (boletos (bootstrap d))"
    by (rule list_all_bootstrap [OF inv]) (simp add: apartado_coherente_def)
next
  assume inv: "list_all apartado_iff (boletos d)"
  show "list_all apartado_iff (boletos (snd (apartar cfg now req num d)))"
    by (rule list_all_apartar [OF inv]) (simp add: apartado_iff_def)
  show "list_all apartado_iff (boletos (fst (liberar_boletos_expirados now d)))"
    by (rule list_all_liberar_boletos_expirados [OF inv]) (simp add: apartado_iff_def liberar_def)
  show "list_all apartado_iff (boletos (bootstrap d))"
    by (rule list_all_bootstrap [OF inv]) (simp add: apartado_iff_def)
next
  show "list_all apartado_coherente (boletos db_vacia)"
    by (simp add: db_vacia_def)
qed

theorem apartado_coherente_invariante_witness:
  "list_all apartado_coherente (boletos db_ana) \<and>
   list_all apartado_coherente (boletos (snd (apartar cfg0 (t0 + 1) post_luis 7 db_ana))) \<and>
   list_all apartado_coherente (boletos (snd (confirmar cfg0 43 ''admin123'' db_ana))) \<and>
   list_all apartado_coherente (boletos (fst (liberar_boletos_expirados (t0 + 1) db_ana))) \<and>
   list_all apartado_coherente (boletos (bootstrap db_ana)) \<and>
   list_all apartado_iff (boletos (snd (apartar cfg0 (t0 + 1) post_luis 7 db_ana)))"
proof -
  have "list_all apartado_coherente (boletos db_ana)" and "list_all apartado_iff (boletos db_ana)"
    by code_simp+
  then show ?thesis
    using apartado_coherente_invariante
            [of db_ana cfg0 "t0 + 1" post_luis 7 43 "''admin123''"]
    by simp
qed

text \<open>
  C1, as stated, fails at \<open>confirmar\<close>: in the store where Ana has reserved ticket 42
  every ticket is \<open>apartado\<close> exactly when it has timestamp and participant; confirming
  the ticket leaves it \<open>vendido\<close> with both still there.
\<close>

theorem apartado_iff_confirmar_counterexample:
  "list_all apartado_iff (boletos db_ana) \<and>
   boleto_por_id 43 (snd (confirmar cfg0 43 ''admin123'' db_ana)) =
     Inr (Some \<lparr>b_id = 43, numero_boleto = 42, estado = ''vendido'',
           fecha_apartado = Some t0, participante_id = Some 1\<rparr>) \<and>
   \<not> list_all apartado_iff (boletos (snd (confirmar cfg0 43 ''admin123'' db_ana)))"
  by code_simp

text \<open>
  C2 at the store the start-up block builds: ticket 0 (primary key 1) is \<open>disponible\<close>
  and every ticket has a participant exactly when it is \<open>apartado\<close> or \<open>vendido\<close>;
  \<open>confirmar\<close> on that ticket leaves it \<open>vendido\<close> with no participant.
\<close>

theorem confirmar_disponible_sin_participante:
  "boleto_por_id 1 db_inicial =
     Inr (Some \<lparr>b_id = 1, numero_boleto = 0, estado = ''disponible'',
           fecha_apartado = None, participante_id = None\<rparr>) \<and>
   list_all propietario_iff (boletos db_inicial) \<and>
   boleto_por_id 1 (snd (confirmar cfg0 1 ''admin123'' db_inicial)) =
     Inr (Some \<lparr>b_id = 1, numero_boleto = 0, estado = ''vendido'',
           fecha_apartado = None, participante_id = None\<rparr>) \<and>
   \<not> list_all propietario_iff (boletos (snd (confirmar cfg0 1 ''admin123'' db_inicial)))"
  by code_simp

end
